theory Spec2Isabelle
  imports Main "HOL-Library.Word"
begin

section \<open>The Go standard library, as far as the proxy uses it\<close>

text \<open>
  \<^verbatim>\<open>url.URL\<close> with the fields the proxy reads or writes. \<^verbatim>\<open>TransferURL\<close> assigns
  only \<^verbatim>\<open>Host\<close>; the other fields are carried through as parsed.
\<close>

record URL =
  Scheme :: string
  Host :: string
  Path :: string
  RawQuery :: string

text \<open>
  \<^verbatim>\<open>URL.Hostname\<close>, \<^verbatim>\<open>URL.Port\<close> (package net/url) and \<^verbatim>\<open>net.JoinHostPort\<close> are
  functions of Go's standard library, not of this repository. They are pure string
  functions and are written out here as the library defines them, so that the model
  computes. The theorems hold whatever these functions are; only the examples
  evaluate them.
\<close>

fun LastIndexByte :: "string \<Rightarrow> char \<Rightarrow> nat option" where
  "LastIndexByte [] c = None"
| "LastIndexByte (x # xs) c =
     (case LastIndexByte xs c of
        Some i \<Rightarrow> Some (Suc i)
      | None \<Rightarrow> if x = c then Some 0 else None)"

definition isDigit :: "char \<Rightarrow> bool" where
  "isDigit b = (48 \<le> (of_char b :: nat) \<and> (of_char b :: nat) \<le> 57)"

definition validOptionalPort :: "string \<Rightarrow> bool" where
  "validOptionalPort port =
     (case port of
        [] \<Rightarrow> True
      | p # ds \<Rightarrow> if p \<noteq> CHR '':'' then False else list_all isDigit ds)"

definition HasPrefix :: "string \<Rightarrow> string \<Rightarrow> bool" where
  "HasPrefix s pre = (take (length pre) s = pre)"

definition HasSuffix :: "string \<Rightarrow> string \<Rightarrow> bool" where
  "HasSuffix s suf = (length suf \<le> length s \<and> drop (length s - length suf) s = suf)"

definition splitHostPort :: "string \<Rightarrow> string \<times> string" where
  "splitHostPort hostPort =
     (let (host, port) =
            (case LastIndexByte hostPort CHR '':'' of
               Some colon \<Rightarrow>
                 if validOptionalPort (drop colon hostPort)
                 then (take colon hostPort, drop (Suc colon) hostPort)
                 else (hostPort, [])
             | None \<Rightarrow> (hostPort, []))
      in if HasPrefix host ''['' \<and> HasSuffix host '']''
         then (take (length host - 2) (drop 1 host), port)
         else (host, port))"

definition Hostname :: "URL \<Rightarrow> string" where
  "Hostname u = fst (splitHostPort (Host u))"

definition Port :: "URL \<Rightarrow> string" where
  "Port u = snd (splitHostPort (Host u))"

definition JoinHostPort :: "string \<Rightarrow> string \<Rightarrow> string" where
  "JoinHostPort host port =
     (if CHR '':'' \<in> set host then ''['' @ host @ '']:'' @ port
      else host @ '':'' @ port)"

text \<open>
  \<^verbatim>\<open>net.IP\<close>: the proxy only ever calls \<^verbatim>\<open>String()\<close> on an address, so an address is
  carried by its textual form.
\<close>

datatype IP = IP (IP_String: string)

section \<open>Wire types of the management API\<close>

datatype ManagedObjectReference = MoRef (mo_Type: string) (mo_Value: string)

text \<open>
  Errors are values. \<^verbatim>\<open>url_Error\<close> is what \<^verbatim>\<open>url.Parse\<close> returns, \<^verbatim>\<open>soap_Fault\<close> what
  a remote invocation or a property retrieval returns; both are opaque to the proxy.
  \<^verbatim>\<open>Errorf_host_config_nil\<close> is the one error the proxy builds itself (line 182), with
  the five arguments of its format string in order: the VM's name and reference, the
  host's name and reference, the host's connection state.
\<close>

datatype error =
    url_Error string
  | soap_Fault string
  | Errorf_host_config_nil string ManagedObjectReference string ManagedObjectReference string

text \<open>
  The request objects of the eleven guest file operations, one constructor per request
  type of package \<^verbatim>\<open>types\<close>, the fields in the order the source assigns them: \<^verbatim>\<open>This\<close>,
  \<^verbatim>\<open>Vm\<close>, \<^verbatim>\<open>Auth\<close>, then the operation's own arguments. The credential type \<open>'auth\<close>
  and the file attribute type \<open>'attr\<close> are opaque to the proxy.
\<close>

datatype ('auth, 'attr) request =
    types_ChangeFileAttributesInGuest
      ManagedObjectReference ManagedObjectReference 'auth string 'attr
  | types_CreateTemporaryDirectoryInGuest
      ManagedObjectReference ManagedObjectReference 'auth string string string
  | types_CreateTemporaryFileInGuest
      ManagedObjectReference ManagedObjectReference 'auth string string string
  | types_DeleteDirectoryInGuest
      ManagedObjectReference ManagedObjectReference 'auth string bool
  | types_DeleteFileInGuest
      ManagedObjectReference ManagedObjectReference 'auth string
  | types_InitiateFileTransferFromGuest
      ManagedObjectReference ManagedObjectReference 'auth string
  | types_InitiateFileTransferToGuest
      ManagedObjectReference ManagedObjectReference 'auth string 'attr "64 word" bool
  | types_ListFilesInGuest
      ManagedObjectReference ManagedObjectReference 'auth string "32 word" "32 word" string
  | types_MakeDirectoryInGuest
      ManagedObjectReference ManagedObjectReference 'auth string bool
  | types_MoveDirectoryInGuest
      ManagedObjectReference ManagedObjectReference 'auth string string
  | types_MoveFileInGuest
      ManagedObjectReference ManagedObjectReference 'auth string string bool

text \<open>A response object that carries a value has the single field \<^verbatim>\<open>Returnval\<close>.\<close>

datatype 'a Response = Response (Returnval: 'a)

text \<open>
  The properties of \<^verbatim>\<open>mo.VirtualMachine\<close> and \<^verbatim>\<open>mo.HostSystem\<close> that \<^verbatim>\<open>TransferURL\<close>
  reads. \<^verbatim>\<open>Runtime.Host\<close> and \<^verbatim>\<open>Config\<close> are pointers and may be nil. The source reads
  \<^verbatim>\<open>host.Config.VirtualNicManagerInfo.NetConfig\<close> with no check between \<^verbatim>\<open>Config\<close> and
  \<^verbatim>\<open>NetConfig\<close>; these types are declared elsewhere in the SDK, and the model takes
  the net config to be there whenever the config is. Its type \<open>'nc\<close> is opaque.
\<close>

record VirtualMachine =
  vm_Self :: ManagedObjectReference
  vm_Name :: string
  vm_Runtime_Host :: "ManagedObjectReference option"

datatype 'nc HostConfigInfo = HostConfigInfo (VirtualNicManagerInfo_NetConfig: 'nc)

record 'nc HostSystem =
  host_Self :: ManagedObjectReference
  host_Name :: string
  host_Runtime_ConnectionState :: string
  host_Summary_Config_SslThumbprint :: string
  host_Config :: "'nc HostConfigInfo option"

section \<open>The proxy's dependencies\<close>

text \<open>
  Everything the proxy calls outside its own file is a parameter: the URL parser, the
  process environment, the property collector's \<^verbatim>\<open>RetrieveOne\<close> at the two types it is
  used at, \<^verbatim>\<open>internal.HostSystemManagementIPs\<close>, and the eleven remote operations of package
  \<^verbatim>\<open>methods\<close>. A remote call reads and may change the remote side \<open>'w\<close>, and returns
  either an error or a response.
\<close>

record ('w, 'auth, 'attr, 'fti, 'lst, 'nc) deps =
  url_Parse :: "string \<Rightarrow> error + URL"
  Getenv :: "string \<Rightarrow> string"
  RetrieveOne_VirtualMachine ::
    "ManagedObjectReference \<Rightarrow> string list \<Rightarrow> 'w \<Rightarrow> (error + VirtualMachine) \<times> 'w"
  RetrieveOne_HostSystem ::
    "ManagedObjectReference \<Rightarrow> string list \<Rightarrow> 'w \<Rightarrow> (error + 'nc HostSystem) \<times> 'w"
  HostSystemManagementIPs :: "'nc \<Rightarrow> IP list"
  methods_ChangeFileAttributesInGuest ::
    "('auth, 'attr) request \<Rightarrow> 'w \<Rightarrow> (error + unit) \<times> 'w"
  methods_CreateTemporaryDirectoryInGuest ::
    "('auth, 'attr) request \<Rightarrow> 'w \<Rightarrow> (error + string Response) \<times> 'w"
  methods_CreateTemporaryFileInGuest ::
    "('auth, 'attr) request \<Rightarrow> 'w \<Rightarrow> (error + string Response) \<times> 'w"
  methods_DeleteDirectoryInGuest ::
    "('auth, 'attr) request \<Rightarrow> 'w \<Rightarrow> (error + unit) \<times> 'w"
  methods_DeleteFileInGuest ::
    "('auth, 'attr) request \<Rightarrow> 'w \<Rightarrow> (error + unit) \<times> 'w"
  methods_InitiateFileTransferFromGuest ::
    "('auth, 'attr) request \<Rightarrow> 'w \<Rightarrow> (error + 'fti Response) \<times> 'w"
  methods_InitiateFileTransferToGuest ::
    "('auth, 'attr) request \<Rightarrow> 'w \<Rightarrow> (error + string Response) \<times> 'w"
  methods_ListFilesInGuest ::
    "('auth, 'attr) request \<Rightarrow> 'w \<Rightarrow> (error + 'lst Response) \<times> 'w"
  methods_MakeDirectoryInGuest ::
    "('auth, 'attr) request \<Rightarrow> 'w \<Rightarrow> (error + unit) \<times> 'w"
  methods_MoveDirectoryInGuest ::
    "('auth, 'attr) request \<Rightarrow> 'w \<Rightarrow> (error + unit) \<times> 'w"
  methods_MoveFileInGuest ::
    "('auth, 'attr) request \<Rightarrow> 'w \<Rightarrow> (error + unit) \<times> 'w"

section \<open>The proxy and its state\<close>

text \<open>
  The client \<^verbatim>\<open>*vim25.Client\<close> behind \<^verbatim>\<open>m.c\<close>: its endpoint URL, whether it is connected
  to vCenter, and its table of TLS thumbprints by host.
\<close>

record Client =
  c_URL :: URL
  c_IsVC :: bool
  c_thumbprints :: "string \<rightharpoonup> string"

text \<open>
  Modelled from the spec: \<^verbatim>\<open>Client.SetThumbprint\<close> is a method of the SDK's client,
  defined outside this file. The spec has the transfer-URL helper resolve "the correct host
  address and TLS trust thumbprint to use", and the doc comment of \<^verbatim>\<open>TransferURL\<close> says it
  "adds the host's thumbprint": the call records the thumbprint under the host.
\<close>

definition SetThumbprint :: "string \<Rightarrow> string \<Rightarrow> Client \<Rightarrow> Client" where
  "SetThumbprint host thumbprint cl =
     cl\<lparr>c_thumbprints := (c_thumbprints cl)(host \<mapsto> thumbprint)\<rparr>"

text \<open>
  \<^verbatim>\<open>FileManager\<close> is passed by value: its own reference and the VM's never change. What
  a method can change lives behind its pointers and its map: the cache \<^verbatim>\<open>m.hosts\<close> and the
  client \<^verbatim>\<open>*m.c\<close>. The state also holds the remote side and, as a ghost field, the list
  of remote calls made so far, oldest first.
\<close>

record FileManager =
  Self :: ManagedObjectReference
  vm :: ManagedObjectReference

datatype ('auth, 'attr) call =
    Invoke "('auth, 'attr) request"
  | Retrieve ManagedObjectReference "string list"

record ('w, 'auth, 'attr) state =
  hosts :: "string \<rightharpoonup> string"
  client :: Client
  remote :: 'w
  sent :: "('auth, 'attr) call list"

definition Reference :: "FileManager \<Rightarrow> ManagedObjectReference" where
  "Reference m = Self m"

text \<open>One remote operation: the call is made on the remote side and noted in \<open>sent\<close>.\<close>

definition invoke ::
  "(('auth, 'attr) request \<Rightarrow> 'w \<Rightarrow> (error + 'r) \<times> 'w) \<Rightarrow> ('auth, 'attr) request \<Rightarrow>
   ('w, 'auth, 'attr) state \<Rightarrow> (error + 'r) \<times> ('w, 'auth, 'attr) state" where
  "invoke method req s =
     (case method req (remote s) of
        (res, w) \<Rightarrow> (res, s\<lparr>remote := w, sent := sent s @ [Invoke req]\<rparr>))"

text \<open>One property retrieval, likewise.\<close>

definition RetrieveOne ::
  "(ManagedObjectReference \<Rightarrow> string list \<Rightarrow> 'w \<Rightarrow> (error + 'r) \<times> 'w) \<Rightarrow>
   ManagedObjectReference \<Rightarrow> string list \<Rightarrow>
   ('w, 'auth, 'attr) state \<Rightarrow> (error + 'r) \<times> ('w, 'auth, 'attr) state" where
  "RetrieveOne retrieve obj ps s =
     (case retrieve obj ps (remote s) of
        (res, w) \<Rightarrow> (res, s\<lparr>remote := w, sent := sent s @ [Retrieve obj ps]\<rparr>))"

section \<open>The forwarding operations\<close>

text \<open>
  Each operation fills its request object, makes the one remote call and unwraps the
  result. A Go result \<^verbatim>\<open>(T, error)\<close> is a pair whose second component is \<open>None\<close> for
  a nil error; a pointer result is an option, \<open>None\<close> for nil.
\<close>

definition ChangeFileAttributes ::
  "('w, 'auth, 'attr, 'fti, 'lst, 'nc) deps \<Rightarrow> FileManager \<Rightarrow> 'auth \<Rightarrow> string \<Rightarrow> 'attr \<Rightarrow>
   ('w, 'auth, 'attr) state \<Rightarrow> error option \<times> ('w, 'auth, 'attr) state" where
  "ChangeFileAttributes d m auth guestFilePath fileAttributes s =
     (let req = types_ChangeFileAttributesInGuest (Reference m) (vm m) auth guestFilePath
                  fileAttributes
      in case invoke (methods_ChangeFileAttributesInGuest d) req s of
           (Inl err, s') \<Rightarrow> (Some err, s')
         | (Inr _, s') \<Rightarrow> (None, s'))"

definition CreateTemporaryDirectory ::
  "('w, 'auth, 'attr, 'fti, 'lst, 'nc) deps \<Rightarrow> FileManager \<Rightarrow> 'auth \<Rightarrow> string \<Rightarrow> string \<Rightarrow> string \<Rightarrow>
   ('w, 'auth, 'attr) state \<Rightarrow> (string \<times> error option) \<times> ('w, 'auth, 'attr) state" where
  "CreateTemporaryDirectory d m auth prefix suffix path s =
     (let req = types_CreateTemporaryDirectoryInGuest (Reference m) (vm m) auth prefix suffix
                  path
      in case invoke (methods_CreateTemporaryDirectoryInGuest d) req s of
           (Inl err, s') \<Rightarrow> (([], Some err), s')
         | (Inr res, s') \<Rightarrow> ((Returnval res, None), s'))"

definition CreateTemporaryFile ::
  "('w, 'auth, 'attr, 'fti, 'lst, 'nc) deps \<Rightarrow> FileManager \<Rightarrow> 'auth \<Rightarrow> string \<Rightarrow> string \<Rightarrow> string \<Rightarrow>
   ('w, 'auth, 'attr) state \<Rightarrow> (string \<times> error option) \<times> ('w, 'auth, 'attr) state" where
  "CreateTemporaryFile d m auth prefix suffix path s =
     (let req = types_CreateTemporaryFileInGuest (Reference m) (vm m) auth prefix suffix path
      in case invoke (methods_CreateTemporaryFileInGuest d) req s of
           (Inl err, s') \<Rightarrow> (([], Some err), s')
         | (Inr res, s') \<Rightarrow> ((Returnval res, None), s'))"

definition DeleteDirectory ::
  "('w, 'auth, 'attr, 'fti, 'lst, 'nc) deps \<Rightarrow> FileManager \<Rightarrow> 'auth \<Rightarrow> string \<Rightarrow> bool \<Rightarrow>
   ('w, 'auth, 'attr) state \<Rightarrow> error option \<times> ('w, 'auth, 'attr) state" where
  "DeleteDirectory d m auth directoryPath recursive s =
     (let req = types_DeleteDirectoryInGuest (Reference m) (vm m) auth directoryPath recursive
      in case invoke (methods_DeleteDirectoryInGuest d) req s of
           (Inl err, s') \<Rightarrow> (Some err, s')
         | (Inr _, s') \<Rightarrow> (None, s'))"

definition DeleteFile ::
  "('w, 'auth, 'attr, 'fti, 'lst, 'nc) deps \<Rightarrow> FileManager \<Rightarrow> 'auth \<Rightarrow> string \<Rightarrow>
   ('w, 'auth, 'attr) state \<Rightarrow> error option \<times> ('w, 'auth, 'attr) state" where
  "DeleteFile d m auth filePath s =
     (let req = types_DeleteFileInGuest (Reference m) (vm m) auth filePath
      in case invoke (methods_DeleteFileInGuest d) req s of
           (Inl err, s') \<Rightarrow> (Some err, s')
         | (Inr _, s') \<Rightarrow> (None, s'))"

definition InitiateFileTransferFromGuest ::
  "('w, 'auth, 'attr, 'fti, 'lst, 'nc) deps \<Rightarrow> FileManager \<Rightarrow> 'auth \<Rightarrow> string \<Rightarrow>
   ('w, 'auth, 'attr) state \<Rightarrow> ('fti option \<times> error option) \<times> ('w, 'auth, 'attr) state" where
  "InitiateFileTransferFromGuest d m auth guestFilePath s =
     (let req = types_InitiateFileTransferFromGuest (Reference m) (vm m) auth guestFilePath
      in case invoke (methods_InitiateFileTransferFromGuest d) req s of
           (Inl err, s') \<Rightarrow> ((None, Some err), s')
         | (Inr res, s') \<Rightarrow> ((Some (Returnval res), None), s'))"

definition InitiateFileTransferToGuest ::
  "('w, 'auth, 'attr, 'fti, 'lst, 'nc) deps \<Rightarrow> FileManager \<Rightarrow> 'auth \<Rightarrow> string \<Rightarrow> 'attr \<Rightarrow> 64 word \<Rightarrow> bool \<Rightarrow>
   ('w, 'auth, 'attr) state \<Rightarrow> (string \<times> error option) \<times> ('w, 'auth, 'attr) state" where
  "InitiateFileTransferToGuest d m auth guestFilePath fileAttributes fileSize overwrite s =
     (let req = types_InitiateFileTransferToGuest (Reference m) (vm m) auth guestFilePath
                  fileAttributes fileSize overwrite
      in case invoke (methods_InitiateFileTransferToGuest d) req s of
           (Inl err, s') \<Rightarrow> (([], Some err), s')
         | (Inr res, s') \<Rightarrow> ((Returnval res, None), s'))"

definition ListFiles ::
  "('w, 'auth, 'attr, 'fti, 'lst, 'nc) deps \<Rightarrow> FileManager \<Rightarrow> 'auth \<Rightarrow> string \<Rightarrow> 32 word \<Rightarrow> 32 word \<Rightarrow> string \<Rightarrow>
   ('w, 'auth, 'attr) state \<Rightarrow> ('lst option \<times> error option) \<times> ('w, 'auth, 'attr) state" where
  "ListFiles d m auth filePath index maxResults matchPattern s =
     (let req = types_ListFilesInGuest (Reference m) (vm m) auth filePath index maxResults
                  matchPattern
      in case invoke (methods_ListFilesInGuest d) req s of
           (Inl err, s') \<Rightarrow> ((None, Some err), s')
         | (Inr res, s') \<Rightarrow> ((Some (Returnval res), None), s'))"

definition MakeDirectory ::
  "('w, 'auth, 'attr, 'fti, 'lst, 'nc) deps \<Rightarrow> FileManager \<Rightarrow> 'auth \<Rightarrow> string \<Rightarrow> bool \<Rightarrow>
   ('w, 'auth, 'attr) state \<Rightarrow> error option \<times> ('w, 'auth, 'attr) state" where
  "MakeDirectory d m auth directoryPath createParentDirectories s =
     (let req = types_MakeDirectoryInGuest (Reference m) (vm m) auth directoryPath
                  createParentDirectories
      in case invoke (methods_MakeDirectoryInGuest d) req s of
           (Inl err, s') \<Rightarrow> (Some err, s')
         | (Inr _, s') \<Rightarrow> (None, s'))"

definition MoveDirectory ::
  "('w, 'auth, 'attr, 'fti, 'lst, 'nc) deps \<Rightarrow> FileManager \<Rightarrow> 'auth \<Rightarrow> string \<Rightarrow> string \<Rightarrow>
   ('w, 'auth, 'attr) state \<Rightarrow> error option \<times> ('w, 'auth, 'attr) state" where
  "MoveDirectory d m auth srcDirectoryPath dstDirectoryPath s =
     (let req = types_MoveDirectoryInGuest (Reference m) (vm m) auth srcDirectoryPath
                  dstDirectoryPath
      in case invoke (methods_MoveDirectoryInGuest d) req s of
           (Inl err, s') \<Rightarrow> (Some err, s')
         | (Inr _, s') \<Rightarrow> (None, s'))"

definition MoveFile ::
  "('w, 'auth, 'attr, 'fti, 'lst, 'nc) deps \<Rightarrow> FileManager \<Rightarrow> 'auth \<Rightarrow> string \<Rightarrow> string \<Rightarrow> bool \<Rightarrow>
   ('w, 'auth, 'attr) state \<Rightarrow> error option \<times> ('w, 'auth, 'attr) state" where
  "MoveFile d m auth srcFilePath dstFilePath overwrite s =
     (let req = types_MoveFileInGuest (Reference m) (vm m) auth srcFilePath dstFilePath
                  overwrite
      in case invoke (methods_MoveFileInGuest d) req s of
           (Inl err, s') \<Rightarrow> (Some err, s')
         | (Inr _, s') \<Rightarrow> (None, s'))"

section \<open>Resolving a transfer URL\<close>

text \<open>
  The package variable \<^verbatim>\<open>useGuestTransferIP\<close> (line 125) is read from the process
  environment once; \<^verbatim>\<open>os.Getenv\<close> gives the empty string for a variable that is not set.
\<close>

definition useGuestTransferIP :: "('w, 'auth, 'attr, 'fti, 'lst, 'nc) deps \<Rightarrow> bool" where
  "useGuestTransferIP d = (Getenv d ''GOVMOMI_USE_GUEST_TRANSFER_IP'' \<noteq> ''false'')"

text \<open>The host properties requested at lines 168 to 173.\<close>

definition props :: "string list" where
  "props = [''name'', ''runtime.connectionState'', ''summary.config.sslThumbprint'',
            ''config.virtualNicManagerInfo.netConfig'']"

text \<open>
  \<^verbatim>\<open>TransferURL\<close>, lines 130 to 207, branch by branch. \<^verbatim>\<open>turl\<close> is a pointer that the
  source updates in place and returns; the model returns the updated record. The two
  mutex sections are the cache lookup and the cache update.
\<close>

definition TransferURL ::
  "('w, 'auth, 'attr, 'fti, 'lst, 'nc) deps \<Rightarrow> FileManager \<Rightarrow> string \<Rightarrow>
   ('w, 'auth, 'attr) state \<Rightarrow> (URL option \<times> error option) \<times> ('w, 'auth, 'attr) state" where
  "TransferURL d m u s =
     (case url_Parse d u of
        Inl err \<Rightarrow> ((None, Some err), s)
      | Inr parsed \<Rightarrow>
          let turl = (if Hostname parsed = ''*''
                      then parsed\<lparr>Host := Host (c_URL (client s))\<rparr> else parsed)
          in if \<not> c_IsVC (client s) then ((Some turl, None), s)
             else
               let name = Hostname turl; port = Port turl
               in case hosts s name of
                    Some mname \<Rightarrow> ((Some (turl\<lparr>Host := JoinHostPort mname port\<rparr>), None), s)
                  | None \<Rightarrow>
                      (case RetrieveOne (RetrieveOne_VirtualMachine d) (vm m)
                              [''name'', ''runtime.host''] s of
                         (Inl err, s1) \<Rightarrow> ((None, Some err), s1)
                       | (Inr vmo, s1) \<Rightarrow>
                           (case vm_Runtime_Host vmo of
                              None \<Rightarrow> ((Some turl, None), s1)
                            | Some h \<Rightarrow>
                                (case RetrieveOne (RetrieveOne_HostSystem d) h props s1 of
                                   (Inl err, s2) \<Rightarrow> ((None, Some err), s2)
                                 | (Inr host, s2) \<Rightarrow>
                                     (case host_Config host of
                                        None \<Rightarrow>
                                          ((None,
                                            Some (Errorf_host_config_nil
                                                    (vm_Name vmo) (vm_Self vmo)
                                                    (host_Name host) (host_Self host)
                                                    (host_Runtime_ConnectionState host))),
                                           s2)
                                      | Some config \<Rightarrow>
                                          let ips = HostSystemManagementIPs d
                                                      (VirtualNicManagerInfo_NetConfig config);
                                              (name', s3) =
                                                (if length ips = 1 \<and> useGuestTransferIP d
                                                 then let mname = IP_String (ips ! 0)
                                                      in (mname,
                                                          s2\<lparr>hosts := (hosts s2)(name \<mapsto> mname)\<rparr>)
                                                 else (name, s2));
                                              turl' = turl\<lparr>Host := JoinHostPort name' port\<rparr>
                                          in ((Some turl', None),
                                              s3\<lparr>client :=
                                                   SetThumbprint (Host turl')
                                                     (host_Summary_Config_SslThumbprint host)
                                                     (client s3)\<rparr>))))))"

section \<open>Sequences of operations\<close>

text \<open>
  A caller uses one proxy for a sequence of calls. \<open>operation\<close> names one call with its
  arguments; \<open>apply_operation\<close> is the state that call leaves behind, and \<open>run\<close> makes
  the calls of a list in order.
\<close>

datatype ('auth, 'attr) operation =
    Call_ChangeFileAttributes 'auth string 'attr
  | Call_CreateTemporaryDirectory 'auth string string string
  | Call_CreateTemporaryFile 'auth string string string
  | Call_DeleteDirectory 'auth string bool
  | Call_DeleteFile 'auth string
  | Call_TransferURL string
  | Call_InitiateFileTransferFromGuest 'auth string
  | Call_InitiateFileTransferToGuest 'auth string 'attr "64 word" bool
  | Call_ListFiles 'auth string "32 word" "32 word" string
  | Call_MakeDirectory 'auth string bool
  | Call_MoveDirectory 'auth string string
  | Call_MoveFile 'auth string string bool

fun apply_operation ::
  "('w, 'auth, 'attr, 'fti, 'lst, 'nc) deps \<Rightarrow> FileManager \<Rightarrow> ('auth, 'attr) operation \<Rightarrow> ('w, 'auth, 'attr) state \<Rightarrow> ('w, 'auth, 'attr) state" where
  "apply_operation d m (Call_ChangeFileAttributes a p fa) s =
     snd (ChangeFileAttributes d m a p fa s)"
| "apply_operation d m (Call_CreateTemporaryDirectory a pre suf p) s =
     snd (CreateTemporaryDirectory d m a pre suf p s)"
| "apply_operation d m (Call_CreateTemporaryFile a pre suf p) s =
     snd (CreateTemporaryFile d m a pre suf p s)"
| "apply_operation d m (Call_DeleteDirectory a p r) s = snd (DeleteDirectory d m a p r s)"
| "apply_operation d m (Call_DeleteFile a p) s = snd (DeleteFile d m a p s)"
| "apply_operation d m (Call_TransferURL u) s = snd (TransferURL d m u s)"
| "apply_operation d m (Call_InitiateFileTransferFromGuest a p) s =
     snd (InitiateFileTransferFromGuest d m a p s)"
| "apply_operation d m (Call_InitiateFileTransferToGuest a p fa n ov) s =
     snd (InitiateFileTransferToGuest d m a p fa n ov s)"
| "apply_operation d m (Call_ListFiles a p i n pat) s = snd (ListFiles d m a p i n pat s)"
| "apply_operation d m (Call_MakeDirectory a p c) s = snd (MakeDirectory d m a p c s)"
| "apply_operation d m (Call_MoveDirectory a p q) s = snd (MoveDirectory d m a p q s)"
| "apply_operation d m (Call_MoveFile a p q ov) s = snd (MoveFile d m a p q ov s)"

fun run ::
  "('w, 'auth, 'attr, 'fti, 'lst, 'nc) deps \<Rightarrow> FileManager \<Rightarrow> ('auth, 'attr) operation list \<Rightarrow> ('w, 'auth, 'attr) state \<Rightarrow> ('w, 'auth, 'attr) state" where
  "run d m [] s = s"
| "run d m (x # xs) s = run d m xs (apply_operation d m x s)"

section \<open>A concrete deployment for the examples\<close>

text \<open>
  The examples run the proxy against a small simulated endpoint. The remote side is
  the number of requests it has served. The VM is \<^verbatim>\<open>vm-web\<close>; its runtime host (when it
  has one) is \<^verbatim>\<open>esx1.example.com\<close> with thumbprint \<^verbatim>\<open>AA:BB:CC\<close>. The net config is the list
  of the host's management addresses, taken as they are. The three arguments choose
  the scenario: the VM's runtime host, the host's config, and the value of the
  environment variable.
\<close>

text \<open>The parser's results on the URLs the examples use; any other string is refused.\<close>

definition sim_Parse :: "string \<Rightarrow> error + URL" where
  "sim_Parse u =
     (if u = ''https://*:443/guestFile?id=7''
      then Inr \<lparr>Scheme = ''https'', Host = ''*:443'', Path = ''/guestFile'', RawQuery = ''id=7''\<rparr>
      else if u = ''https://esx1.example.com:443/guestFile?id=7''
      then Inr \<lparr>Scheme = ''https'', Host = ''esx1.example.com:443'', Path = ''/guestFile'',
                RawQuery = ''id=7''\<rparr>
      else if u = ''https://vc.example.com:8443/guestFile?id=7''
      then Inr \<lparr>Scheme = ''https'', Host = ''vc.example.com:8443'', Path = ''/guestFile'',
                RawQuery = ''id=7''\<rparr>
      else Inl (url_Error u))"

definition sim ::
  "ManagedObjectReference option \<Rightarrow> string list HostConfigInfo option \<Rightarrow> string \<Rightarrow>
   (nat, string, nat, string, string list, string list) deps" where
  "sim rhost config env =
     \<lparr>url_Parse = sim_Parse,
      Getenv = (\<lambda>k. if k = ''GOVMOMI_USE_GUEST_TRANSFER_IP'' then env else []),
      RetrieveOne_VirtualMachine =
        (\<lambda>obj ps w. (Inr \<lparr>vm_Self = obj, vm_Name = ''vm-web'', vm_Runtime_Host = rhost\<rparr>,
                      Suc w)),
      RetrieveOne_HostSystem =
        (\<lambda>obj ps w. (Inr \<lparr>host_Self = obj, host_Name = ''esx1.example.com'',
                           host_Runtime_ConnectionState = ''connected'',
                           host_Summary_Config_SslThumbprint = ''AA:BB:CC'',
                           host_Config = config\<rparr>,
                      Suc w)),
      HostSystemManagementIPs = map IP,
      methods_ChangeFileAttributesInGuest = (\<lambda>req w. (Inr (), Suc w)),
      methods_CreateTemporaryDirectoryInGuest = (\<lambda>req w. (Inr (Response ''/tmp/d1''), Suc w)),
      methods_CreateTemporaryFileInGuest = (\<lambda>req w. (Inr (Response ''/tmp/f1''), Suc w)),
      methods_DeleteDirectoryInGuest = (\<lambda>req w. (Inr (), Suc w)),
      methods_DeleteFileInGuest = (\<lambda>req w. (Inl (soap_Fault ''FileNotFound''), Suc w)),
      methods_InitiateFileTransferFromGuest =
        (\<lambda>req w. (Inr (Response ''https://*:443/guestFile?id=7''), Suc w)),
      methods_InitiateFileTransferToGuest =
        (\<lambda>req w. (Inr (Response ''https://*:443/guestFile?id=7''), Suc w)),
      methods_ListFilesInGuest = (\<lambda>req w. (Inr (Response [''a.txt'', ''b.txt'']), Suc w)),
      methods_MakeDirectoryInGuest = (\<lambda>req w. (Inr (), Suc w)),
      methods_MoveDirectoryInGuest = (\<lambda>req w. (Inr (), Suc w)),
      methods_MoveFileInGuest = (\<lambda>req w. (Inr (), Suc w))\<rparr>"

definition esx1 :: ManagedObjectReference where
  "esx1 = MoRef ''HostSystem'' ''host-9''"

definition fm :: FileManager where
  "fm = \<lparr>Self = MoRef ''GuestFileManager'' ''guestOperationsFileManager'',
         vm = MoRef ''VirtualMachine'' ''vm-42''\<rparr>"

text \<open>
  A fresh proxy: an empty cache, a client of the endpoint \<^verbatim>\<open>vc.example.com:8443\<close> with no
  thumbprint yet, nothing sent. The argument says whether the endpoint is vCenter.
\<close>

definition fresh :: "bool \<Rightarrow> (nat, string, nat) state" where
  "fresh vc =
     \<lparr>hosts = Map.empty,
      client = \<lparr>c_URL = \<lparr>Scheme = ''https'', Host = ''vc.example.com:8443'', Path = ''/sdk'',
                         RawQuery = []\<rparr>,
                c_IsVC = vc, c_thumbprints = Map.empty\<rparr>,
      remote = 0,
      sent = []\<rparr>"

section \<open>The paths through \<^verbatim>\<open>TransferURL\<close>\<close>

text \<open>
  One lemma per return statement of \<^verbatim>\<open>TransferURL\<close>: under the conditions that lead to
  it, the result and the whole state after the call. \<open>turl\<close> is the parsed URL after the
  placeholder step of lines 136 to 138.
\<close>

lemma invoke_eq:
  "invoke f req s =
     (fst (f req (remote s)), s\<lparr>remote := snd (f req (remote s)), sent := sent s @ [Invoke req]\<rparr>)"
  by (simp add: invoke_def split: prod.split)

lemma RetrieveOne_eq:
  "RetrieveOne f obj ps s =
     (fst (f obj ps (remote s)),
      s\<lparr>remote := snd (f obj ps (remote s)), sent := sent s @ [Retrieve obj ps]\<rparr>)"
  by (simp add: RetrieveOne_def split: prod.split)

lemma TransferURL_parse_error:
  "url_Parse d u = Inl err \<Longrightarrow> TransferURL d m u s = ((None, Some err), s)"
  by (simp add: TransferURL_def)

lemma TransferURL_esx:
  assumes "url_Parse d u = Inr parsed" and "\<not> c_IsVC (client s)"
  shows "TransferURL d m u s =
           ((Some (if Hostname parsed = ''*'' then parsed\<lparr>Host := Host (c_URL (client s))\<rparr>
                   else parsed), None), s)"
  using assms by (simp add: TransferURL_def)

lemma TransferURL_hit:
  assumes "url_Parse d u = Inr parsed" and "c_IsVC (client s)"
    and "turl = (if Hostname parsed = ''*'' then parsed\<lparr>Host := Host (c_URL (client s))\<rparr>
                 else parsed)"
    and "hosts s (Hostname turl) = Some mname"
  shows "TransferURL d m u s =
           ((Some (turl\<lparr>Host := JoinHostPort mname (Port turl)\<rparr>), None), s)"
  using assms by (simp add: TransferURL_def Let_def)

lemma TransferURL_vm_error:
  assumes "url_Parse d u = Inr parsed" and "c_IsVC (client s)"
    and "turl = (if Hostname parsed = ''*'' then parsed\<lparr>Host := Host (c_URL (client s))\<rparr>
                 else parsed)"
    and "hosts s (Hostname turl) = None"
    and "RetrieveOne_VirtualMachine d (vm m) [''name'', ''runtime.host''] (remote s) = (Inl err, wa)"
  shows "TransferURL d m u s =
           ((None, Some err),
            s\<lparr>remote := wa, sent := sent s @ [Retrieve (vm m) [''name'', ''runtime.host'']]\<rparr>)"
  using assms by (simp add: TransferURL_def Let_def RetrieveOne_eq)

lemma TransferURL_no_host:
  assumes "url_Parse d u = Inr parsed" and "c_IsVC (client s)"
    and "turl = (if Hostname parsed = ''*'' then parsed\<lparr>Host := Host (c_URL (client s))\<rparr>
                 else parsed)"
    and "hosts s (Hostname turl) = None"
    and "RetrieveOne_VirtualMachine d (vm m) [''name'', ''runtime.host''] (remote s) = (Inr vmo, wa)"
    and "vm_Runtime_Host vmo = None"
  shows "TransferURL d m u s =
           ((Some turl, None),
            s\<lparr>remote := wa, sent := sent s @ [Retrieve (vm m) [''name'', ''runtime.host'']]\<rparr>)"
  using assms by (simp add: TransferURL_def Let_def RetrieveOne_eq)

lemma TransferURL_host_error:
  assumes "url_Parse d u = Inr parsed" and "c_IsVC (client s)"
    and "turl = (if Hostname parsed = ''*'' then parsed\<lparr>Host := Host (c_URL (client s))\<rparr>
                 else parsed)"
    and "hosts s (Hostname turl) = None"
    and "RetrieveOne_VirtualMachine d (vm m) [''name'', ''runtime.host''] (remote s) = (Inr vmo, wa)"
    and "vm_Runtime_Host vmo = Some h"
    and "RetrieveOne_HostSystem d h props wa = (Inl err, wb)"
  shows "TransferURL d m u s =
           ((None, Some err),
            s\<lparr>remote := wb,
              sent := sent s @ [Retrieve (vm m) [''name'', ''runtime.host''], Retrieve h props]\<rparr>)"
  using assms by (simp add: TransferURL_def Let_def RetrieveOne_eq)

lemma TransferURL_config_nil:
  assumes "url_Parse d u = Inr parsed" and "c_IsVC (client s)"
    and "turl = (if Hostname parsed = ''*'' then parsed\<lparr>Host := Host (c_URL (client s))\<rparr>
                 else parsed)"
    and "hosts s (Hostname turl) = None"
    and "RetrieveOne_VirtualMachine d (vm m) [''name'', ''runtime.host''] (remote s) = (Inr vmo, wa)"
    and "vm_Runtime_Host vmo = Some h"
    and "RetrieveOne_HostSystem d h props wa = (Inr host, wb)"
    and "host_Config host = None"
  shows "TransferURL d m u s =
           ((None, Some (Errorf_host_config_nil (vm_Name vmo) (vm_Self vmo) (host_Name host)
                           (host_Self host) (host_Runtime_ConnectionState host))),
            s\<lparr>remote := wb,
              sent := sent s @ [Retrieve (vm m) [''name'', ''runtime.host''], Retrieve h props]\<rparr>)"
  using assms by (simp add: TransferURL_def Let_def RetrieveOne_eq)

lemma TransferURL_resolved:
  assumes "url_Parse d u = Inr parsed" and "c_IsVC (client s)"
    and "turl = (if Hostname parsed = ''*'' then parsed\<lparr>Host := Host (c_URL (client s))\<rparr>
                 else parsed)"
    and "hosts s (Hostname turl) = None"
    and "RetrieveOne_VirtualMachine d (vm m) [''name'', ''runtime.host''] (remote s) = (Inr vmo, wa)"
    and "vm_Runtime_Host vmo = Some h"
    and "RetrieveOne_HostSystem d h props wa = (Inr host, wb)"
    and "host_Config host = Some config"
    and "ips = HostSystemManagementIPs d (VirtualNicManagerInfo_NetConfig config)"
    and "use_ip = (length ips = 1 \<and> useGuestTransferIP d)"
    and "turl' = turl\<lparr>Host := JoinHostPort (if use_ip then IP_String (ips ! 0) else Hostname turl)
                                 (Port turl)\<rparr>"
  shows "TransferURL d m u s =
           ((Some turl', None),
            s\<lparr>hosts := (if use_ip then (hosts s)(Hostname turl \<mapsto> IP_String (ips ! 0))
                         else hosts s),
              client := SetThumbprint (Host turl') (host_Summary_Config_SslThumbprint host)
                          (client s),
              remote := wb,
              sent := sent s @ [Retrieve (vm m) [''name'', ''runtime.host''], Retrieve h props]\<rparr>)"
  using assms by (simp add: TransferURL_def Let_def RetrieveOne_eq)

text \<open>
  What a call can do to the local state, whichever path it takes: nothing, or one
  thumbprint registered for the returned URL's host and at most one cache entry added
  under a name that had none.
\<close>

lemma TransferURL_local:
  "(hosts (snd (TransferURL d m u s)) = hosts s \<and>
    client (snd (TransferURL d m u s)) = client s) \<or>
   (\<exists>turl' tp.
      fst (TransferURL d m u s) = (Some turl', None) \<and>
      client (snd (TransferURL d m u s)) = SetThumbprint (Host turl') tp (client s) \<and>
      (hosts (snd (TransferURL d m u s)) = hosts s \<or>
       (\<exists>name mname. hosts s name = None \<and>
          hosts (snd (TransferURL d m u s)) = (hosts s)(name \<mapsto> mname))))"
proof (cases "url_Parse d u")
  case (Inl err)
  then show ?thesis by (simp add: TransferURL_parse_error)
next
  case parse: (Inr parsed)
  define turl where
    "turl = (if Hostname parsed = ''*'' then parsed\<lparr>Host := Host (c_URL (client s))\<rparr>
             else parsed)"
  show ?thesis
  proof (cases "c_IsVC (client s)")
    case False
    with parse show ?thesis by (simp add: TransferURL_esx)
  next
    case vc: True
    show ?thesis
    proof (cases "hosts s (Hostname turl)")
      case (Some mname)
      from TransferURL_hit [OF parse vc turl_def Some] show ?thesis by simp
    next
      case miss: None
      obtain r1 wa where
        r1: "RetrieveOne_VirtualMachine d (vm m) [''name'', ''runtime.host''] (remote s) = (r1, wa)"
        by (cases "RetrieveOne_VirtualMachine d (vm m) [''name'', ''runtime.host''] (remote s)")
      show ?thesis
      proof (cases r1)
        case (Inl err)
        from TransferURL_vm_error [OF parse vc turl_def miss r1 [unfolded Inl]]
        show ?thesis by simp
      next
        case vmo: (Inr vmo)
        show ?thesis
        proof (cases "vm_Runtime_Host vmo")
          case None
          from TransferURL_no_host [OF parse vc turl_def miss r1 [unfolded vmo] None]
          show ?thesis by simp
        next
          case h: (Some h)
          obtain r2 wb where r2: "RetrieveOne_HostSystem d h props wa = (r2, wb)"
            by (cases "RetrieveOne_HostSystem d h props wa")
          show ?thesis
          proof (cases r2)
            case (Inl err)
            from TransferURL_host_error [OF parse vc turl_def miss r1 [unfolded vmo] h
                r2 [unfolded Inl]]
            show ?thesis by simp
          next
            case host: (Inr host)
            show ?thesis
            proof (cases "host_Config host")
              case None
              from TransferURL_config_nil [OF parse vc turl_def miss r1 [unfolded vmo] h
                  r2 [unfolded host] None]
              show ?thesis by simp
            next
              case (Some config)
              from TransferURL_resolved [OF parse vc turl_def miss r1 [unfolded vmo] h
                  r2 [unfolded host] Some refl refl refl] miss
              show ?thesis by auto
            qed
          qed
        qed
      qed
    qed
  qed
qed

lemma TransferURL_hosts_kept:
  "hosts s k = Some v \<Longrightarrow> hosts (snd (TransferURL d m u s)) k = Some v"
  using TransferURL_local [of d m u s] by auto

lemma TransferURL_endpoint_unused:
  assumes "url_Parse d u = Inr parsed" and "Hostname parsed \<noteq> ''*''"
  shows "fst (TransferURL d m u (s\<lparr>client := (client s)\<lparr>c_URL := x\<rparr>\<rparr>)) =
         fst (TransferURL d m u s)"
  using assms
  by (simp add: TransferURL_def Let_def RetrieveOne_eq
        split: sum.split option.split prod.split)

lemma TransferURL_same_after_placeholder:
  assumes "url_Parse d u = Inr p" and "url_Parse d u' = Inr p'"
    and "(if Hostname p = ''*'' then p\<lparr>Host := Host (c_URL (client s))\<rparr> else p) =
         (if Hostname p' = ''*'' then p'\<lparr>Host := Host (c_URL (client s))\<rparr> else p')"
  shows "TransferURL d m u s = TransferURL d m u' s"
  unfolding TransferURL_def using assms by (simp only: sum.case)

lemma TransferURL_placeholder_as_endpoint:
  assumes "url_Parse d u = Inr parsed" and "Hostname parsed = ''*''"
    and "url_Parse d u' = Inr (parsed\<lparr>Host := Host (c_URL (client s))\<rparr>)"
  shows "TransferURL d m u s = TransferURL d m u' s"
proof (rule TransferURL_same_after_placeholder [OF assms(1) assms(3)])
  show "(if Hostname parsed = ''*'' then parsed\<lparr>Host := Host (c_URL (client s))\<rparr> else parsed) =
        (if Hostname (parsed\<lparr>Host := Host (c_URL (client s))\<rparr>) = ''*''
         then parsed\<lparr>Host := Host (c_URL (client s))\<rparr>\<lparr>Host := Host (c_URL (client s))\<rparr>
         else parsed\<lparr>Host := Host (c_URL (client s))\<rparr>)"
    using assms(2) by simp
qed

section \<open>The forwarding operations, in one equation each\<close>

text \<open>
  Each operation, as a function of what its one remote call returns: the request it
  sends, the result it hands back, and the state it leaves.
\<close>

lemma ChangeFileAttributes_eq:
  "ChangeFileAttributes d m auth guestFilePath fileAttributes s =
     (let req = types_ChangeFileAttributesInGuest (Self m) (vm m) auth guestFilePath fileAttributes;
          r = methods_ChangeFileAttributesInGuest d req (remote s)
      in ((case fst r of Inl err \<Rightarrow> Some err | Inr _ \<Rightarrow> None),
          s\<lparr>remote := snd r, sent := sent s @ [Invoke req]\<rparr>))"
  by (simp add: ChangeFileAttributes_def invoke_eq Reference_def Let_def split: sum.split)

lemma CreateTemporaryDirectory_eq:
  "CreateTemporaryDirectory d m auth prefix suffix path s =
     (let req = types_CreateTemporaryDirectoryInGuest (Self m) (vm m) auth prefix suffix path;
          r = methods_CreateTemporaryDirectoryInGuest d req (remote s)
      in ((case fst r of Inl err \<Rightarrow> ([], Some err) | Inr res \<Rightarrow> (Returnval res, None)),
          s\<lparr>remote := snd r, sent := sent s @ [Invoke req]\<rparr>))"
  by (simp add: CreateTemporaryDirectory_def invoke_eq Reference_def Let_def split: sum.split)

lemma CreateTemporaryFile_eq:
  "CreateTemporaryFile d m auth prefix suffix path s =
     (let req = types_CreateTemporaryFileInGuest (Self m) (vm m) auth prefix suffix path;
          r = methods_CreateTemporaryFileInGuest d req (remote s)
      in ((case fst r of Inl err \<Rightarrow> ([], Some err) | Inr res \<Rightarrow> (Returnval res, None)),
          s\<lparr>remote := snd r, sent := sent s @ [Invoke req]\<rparr>))"
  by (simp add: CreateTemporaryFile_def invoke_eq Reference_def Let_def split: sum.split)

lemma DeleteDirectory_eq:
  "DeleteDirectory d m auth directoryPath recursive s =
     (let req = types_DeleteDirectoryInGuest (Self m) (vm m) auth directoryPath recursive;
          r = methods_DeleteDirectoryInGuest d req (remote s)
      in ((case fst r of Inl err \<Rightarrow> Some err | Inr _ \<Rightarrow> None),
          s\<lparr>remote := snd r, sent := sent s @ [Invoke req]\<rparr>))"
  by (simp add: DeleteDirectory_def invoke_eq Reference_def Let_def split: sum.split)

lemma DeleteFile_eq:
  "DeleteFile d m auth filePath s =
     (let req = types_DeleteFileInGuest (Self m) (vm m) auth filePath;
          r = methods_DeleteFileInGuest d req (remote s)
      in ((case fst r of Inl err \<Rightarrow> Some err | Inr _ \<Rightarrow> None),
          s\<lparr>remote := snd r, sent := sent s @ [Invoke req]\<rparr>))"
  by (simp add: DeleteFile_def invoke_eq Reference_def Let_def split: sum.split)

lemma InitiateFileTransferFromGuest_eq:
  "InitiateFileTransferFromGuest d m auth guestFilePath s =
     (let req = types_InitiateFileTransferFromGuest (Self m) (vm m) auth guestFilePath;
          r = methods_InitiateFileTransferFromGuest d req (remote s)
      in ((case fst r of Inl err \<Rightarrow> (None, Some err) | Inr res \<Rightarrow> (Some (Returnval res), None)),
          s\<lparr>remote := snd r, sent := sent s @ [Invoke req]\<rparr>))"
  by (simp add: InitiateFileTransferFromGuest_def invoke_eq Reference_def Let_def split: sum.split)

lemma InitiateFileTransferToGuest_eq:
  "InitiateFileTransferToGuest d m auth guestFilePath fileAttributes fileSize overwrite s =
     (let req = types_InitiateFileTransferToGuest (Self m) (vm m) auth guestFilePath fileAttributes fileSize overwrite;
          r = methods_InitiateFileTransferToGuest d req (remote s)
      in ((case fst r of Inl err \<Rightarrow> ([], Some err) | Inr res \<Rightarrow> (Returnval res, None)),
          s\<lparr>remote := snd r, sent := sent s @ [Invoke req]\<rparr>))"
  by (simp add: InitiateFileTransferToGuest_def invoke_eq Reference_def Let_def split: sum.split)

lemma ListFiles_eq:
  "ListFiles d m auth filePath index maxResults matchPattern s =
     (let req = types_ListFilesInGuest (Self m) (vm m) auth filePath index maxResults matchPattern;
          r = methods_ListFilesInGuest d req (remote s)
      in ((case fst r of Inl err \<Rightarrow> (None, Some err) | Inr res \<Rightarrow> (Some (Returnval res), None)),
          s\<lparr>remote := snd r, sent := sent s @ [Invoke req]\<rparr>))"
  by (simp add: ListFiles_def invoke_eq Reference_def Let_def split: sum.split)

lemma MakeDirectory_eq:
  "MakeDirectory d m auth directoryPath createParentDirectories s =
     (let req = types_MakeDirectoryInGuest (Self m) (vm m) auth directoryPath createParentDirectories;
          r = methods_MakeDirectoryInGuest d req (remote s)
      in ((case fst r of Inl err \<Rightarrow> Some err | Inr _ \<Rightarrow> None),
          s\<lparr>remote := snd r, sent := sent s @ [Invoke req]\<rparr>))"
  by (simp add: MakeDirectory_def invoke_eq Reference_def Let_def split: sum.split)

lemma MoveDirectory_eq:
  "MoveDirectory d m auth srcDirectoryPath dstDirectoryPath s =
     (let req = types_MoveDirectoryInGuest (Self m) (vm m) auth srcDirectoryPath dstDirectoryPath;
          r = methods_MoveDirectoryInGuest d req (remote s)
      in ((case fst r of Inl err \<Rightarrow> Some err | Inr _ \<Rightarrow> None),
          s\<lparr>remote := snd r, sent := sent s @ [Invoke req]\<rparr>))"
  by (simp add: MoveDirectory_def invoke_eq Reference_def Let_def split: sum.split)

lemma MoveFile_eq:
  "MoveFile d m auth srcFilePath dstFilePath overwrite s =
     (let req = types_MoveFileInGuest (Self m) (vm m) auth srcFilePath dstFilePath overwrite;
          r = methods_MoveFileInGuest d req (remote s)
      in ((case fst r of Inl err \<Rightarrow> Some err | Inr _ \<Rightarrow> None),
          s\<lparr>remote := snd r, sent := sent s @ [Invoke req]\<rparr>))"
  by (simp add: MoveFile_def invoke_eq Reference_def Let_def split: sum.split)

lemmas forwarding_eq =
  ChangeFileAttributes_eq CreateTemporaryDirectory_eq CreateTemporaryFile_eq
  DeleteDirectory_eq DeleteFile_eq InitiateFileTransferFromGuest_eq
  InitiateFileTransferToGuest_eq ListFiles_eq MakeDirectory_eq
  MoveDirectory_eq MoveFile_eq

section \<open>The cache along a sequence of calls\<close>

lemma apply_operation_hosts_kept:
  "hosts s k = Some v \<Longrightarrow> hosts (apply_operation d m x s) k = Some v"
  by (cases x) (simp_all add: forwarding_eq Let_def TransferURL_hosts_kept)

lemma run_hosts_kept:
  "hosts s k = Some v \<Longrightarrow> hosts (run d m xs s) k = Some v"
proof (induction xs arbitrary: s)
  case Nil
  then show ?case by simp
next
  case (Cons x xs)
  from Cons.prems have "hosts (apply_operation d m x s) k = Some v"
    by (rule apply_operation_hosts_kept)
  then show ?case by (simp add: Cons.IH)
qed

section \<open>The examples' deployment, evaluated\<close>

lemma sim_Parse_placeholder:
  "url_Parse (sim rhost config env) ''https://*:443/guestFile?id=7'' =
     Inr \<lparr>Scheme = ''https'', Host = ''*:443'', Path = ''/guestFile'', RawQuery = ''id=7''\<rparr>"
  by (simp add: sim_def sim_Parse_def)

lemma sim_Parse_esx1:
  "url_Parse (sim rhost config env) ''https://esx1.example.com:443/guestFile?id=7'' =
     Inr \<lparr>Scheme = ''https'', Host = ''esx1.example.com:443'', Path = ''/guestFile'',
          RawQuery = ''id=7''\<rparr>"
  by (simp add: sim_def sim_Parse_def)

lemma sim_Parse_endpoint:
  "url_Parse (sim rhost config env) ''https://vc.example.com:8443/guestFile?id=7'' =
     Inr \<lparr>Scheme = ''https'', Host = ''vc.example.com:8443'', Path = ''/guestFile'',
          RawQuery = ''id=7''\<rparr>"
  by (simp add: sim_def sim_Parse_def)

lemma splitHostPort_placeholder: "splitHostPort ''*:443'' = (''*'', ''443'')"
  by (simp add: splitHostPort_def validOptionalPort_def isDigit_def HasPrefix_def HasSuffix_def)

lemma splitHostPort_esx1:
  "splitHostPort ''esx1.example.com:443'' = (''esx1.example.com'', ''443'')"
  by (simp add: splitHostPort_def validOptionalPort_def isDigit_def HasPrefix_def HasSuffix_def)

lemma splitHostPort_endpoint:
  "splitHostPort ''vc.example.com:8443'' = (''vc.example.com'', ''8443'')"
  by (simp add: splitHostPort_def validOptionalPort_def isDigit_def HasPrefix_def HasSuffix_def)

lemma sim_retrieve:
  "RetrieveOne_VirtualMachine (sim rhost config env) obj ps w =
     (Inr \<lparr>vm_Self = obj, vm_Name = ''vm-web'', vm_Runtime_Host = rhost\<rparr>, Suc w)"
  "RetrieveOne_HostSystem (sim rhost config env) obj ps w =
     (Inr \<lparr>host_Self = obj, host_Name = ''esx1.example.com'',
           host_Runtime_ConnectionState = ''connected'',
           host_Summary_Config_SslThumbprint = ''AA:BB:CC'', host_Config = config\<rparr>, Suc w)"
  "HostSystemManagementIPs (sim rhost config env) = map IP"
  "Getenv (sim rhost config env) ''GOVMOMI_USE_GUEST_TRANSFER_IP'' = env"
  by (simp_all add: sim_def)

lemmas sim_eval =
  sim_Parse_placeholder sim_Parse_esx1 sim_Parse_endpoint
  splitHostPort_placeholder splitHostPort_esx1 splitHostPort_endpoint
  Hostname_def Port_def JoinHostPort_def fresh_def

lemma sim_resolved_thumbprint:
  "c_thumbprints
     (client (snd (TransferURL (sim (Some esx1) (Some (HostConfigInfo [''10.0.0.5''])) []) fm
           ''https://esx1.example.com:443/guestFile?id=7'' (fresh True))))
     ''10.0.0.5:443'' = Some ''AA:BB:CC''"
  using TransferURL_resolved
      [OF sim_Parse_esx1 [of "Some esx1" "Some (HostConfigInfo [''10.0.0.5''])" "[]"],
     where s = "fresh True" and m = fm and h = esx1 and wa = 1 and wb = 2
       and ips = "[IP ''10.0.0.5'']" and use_ip = True
       and turl' = "\<lparr>Scheme = ''https'', Host = ''10.0.0.5:443'', Path = ''/guestFile'',
            RawQuery = ''id=7''\<rparr>"
       and config = "HostConfigInfo [''10.0.0.5'']"
       and turl = "\<lparr>Scheme = ''https'', Host = ''esx1.example.com:443'', Path = ''/guestFile'',
                     RawQuery = ''id=7''\<rparr>"
       and vmo = "\<lparr>vm_Self = vm fm, vm_Name = ''vm-web'', vm_Runtime_Host = Some esx1\<rparr>"
       and host = "\<lparr>host_Self = esx1, host_Name = ''esx1.example.com'',
                     host_Runtime_ConnectionState = ''connected'',
                     host_Summary_Config_SslThumbprint = ''AA:BB:CC'',
                     host_Config = Some (HostConfigInfo [''10.0.0.5''])\<rparr>"]
  by (simp add: sim_eval sim_retrieve useGuestTransferIP_def SetThumbprint_def)

text \<open>
  Three calls on a proxy whose cache already knows \<^verbatim>\<open>esx1.example.com\<close>: the second call
  misses the cache and adds an entry for \<^verbatim>\<open>vc.example.com\<close>.
\<close>

lemma sim_run_adds_entry:
  "hosts (run (sim (Some esx1) (Some (HostConfigInfo [''10.0.0.9''])) []) fm
            [Call_DeleteFile ''root'' ''/tmp/f1'',
             Call_TransferURL ''https://vc.example.com:8443/guestFile?id=7'',
             Call_TransferURL ''https://esx1.example.com:443/guestFile?id=7'']
            ((fresh True)\<lparr>hosts := [''esx1.example.com'' \<mapsto> ''10.0.0.5'']\<rparr>))
     ''vc.example.com'' = Some ''10.0.0.9''"
  by (simp add: DeleteFile_eq Let_def TransferURL_def RetrieveOne_eq sim_eval sim_retrieve
        useGuestTransferIP_def SetThumbprint_def props_def fm_def)

section \<open>The claims about \<^verbatim>\<open>TransferURL\<close>\<close>

text \<open>
  Claim C1. When the parsed hostname is the placeholder \<^verbatim>\<open>*\<close>, the host component is
  replaced by the host component of the client's endpoint URL before anything else is
  resolved: connected to ESX the call returns the parsed URL with that host, and in
  every state the call behaves exactly as a call on an input that parses to the URL
  with the endpoint's host in place. For any other hostname the host is left as
  parsed at this step: connected to ESX the call returns the URL as parsed, and the
  result does not depend on the client's endpoint URL at all.
\<close>

theorem TransferURL_placeholder_host:
  assumes "url_Parse d u = Inr parsed"
  shows "(Hostname parsed = ''*'' \<longrightarrow>
            (\<not> c_IsVC (client s) \<longrightarrow>
               TransferURL d m u s =
                 ((Some (parsed\<lparr>Host := Host (c_URL (client s))\<rparr>), None), s)) \<and>
            (\<forall>u'. url_Parse d u' = Inr (parsed\<lparr>Host := Host (c_URL (client s))\<rparr>) \<longrightarrow>
               TransferURL d m u s = TransferURL d m u' s)) \<and>
         (Hostname parsed \<noteq> ''*'' \<longrightarrow>
            (\<not> c_IsVC (client s) \<longrightarrow> TransferURL d m u s = ((Some parsed, None), s)) \<and>
            (\<forall>x. fst (TransferURL d m u (s\<lparr>client := (client s)\<lparr>c_URL := x\<rparr>\<rparr>)) =
                 fst (TransferURL d m u s)))"
proof (intro conjI impI allI)
  assume "Hostname parsed = ''*''" and "\<not> c_IsVC (client s)"
  with assms show "TransferURL d m u s =
      ((Some (parsed\<lparr>Host := Host (c_URL (client s))\<rparr>), None), s)"
    by (simp add: TransferURL_esx)
next
  fix u'
  assume "Hostname parsed = ''*''"
    and "url_Parse d u' = Inr (parsed\<lparr>Host := Host (c_URL (client s))\<rparr>)"
  with assms show "TransferURL d m u s = TransferURL d m u' s"
    by (rule TransferURL_placeholder_as_endpoint)
next
  assume "Hostname parsed \<noteq> ''*''" and "\<not> c_IsVC (client s)"
  with assms show "TransferURL d m u s = ((Some parsed, None), s)"
    by (simp add: TransferURL_esx)
next
  fix x
  assume "Hostname parsed \<noteq> ''*''"
  with assms show "fst (TransferURL d m u (s\<lparr>client := (client s)\<lparr>c_URL := x\<rparr>\<rparr>)) =
      fst (TransferURL d m u s)"
    by (rule TransferURL_endpoint_unused)
qed

theorem TransferURL_placeholder_host_witness:
  "url_Parse (sim (Some esx1) (Some (HostConfigInfo [''10.0.0.5''])) [])
     ''https://*:443/guestFile?id=7'' =
     Inr \<lparr>Scheme = ''https'', Host = ''*:443'', Path = ''/guestFile'', RawQuery = ''id=7''\<rparr> \<and>
   Hostname \<lparr>Scheme = ''https'', Host = ''*:443'', Path = ''/guestFile'', RawQuery = ''id=7''\<rparr>
     = ''*'' \<and>
   TransferURL (sim (Some esx1) (Some (HostConfigInfo [''10.0.0.5''])) []) fm
     ''https://*:443/guestFile?id=7'' (fresh False) =
     ((Some \<lparr>Scheme = ''https'', Host = ''vc.example.com:8443'', Path = ''/guestFile'',
             RawQuery = ''id=7''\<rparr>, None), fresh False) \<and>
   TransferURL (sim (Some esx1) (Some (HostConfigInfo [''10.0.0.5''])) []) fm
     ''https://*:443/guestFile?id=7'' (fresh True) =
   TransferURL (sim (Some esx1) (Some (HostConfigInfo [''10.0.0.5''])) []) fm
     ''https://vc.example.com:8443/guestFile?id=7'' (fresh True) \<and>
   Hostname \<lparr>Scheme = ''https'', Host = ''esx1.example.com:443'', Path = ''/guestFile'',
             RawQuery = ''id=7''\<rparr> \<noteq> ''*'' \<and>
   TransferURL (sim (Some esx1) (Some (HostConfigInfo [''10.0.0.5''])) []) fm
     ''https://esx1.example.com:443/guestFile?id=7'' (fresh False) =
     ((Some \<lparr>Scheme = ''https'', Host = ''esx1.example.com:443'', Path = ''/guestFile'',
             RawQuery = ''id=7''\<rparr>, None), fresh False)"
  using
    TransferURL_placeholder_host
      [OF sim_Parse_placeholder [of "Some esx1" "Some (HostConfigInfo [''10.0.0.5''])" "[]"],
       where s = "fresh False" and m = fm]
    TransferURL_placeholder_host
      [OF sim_Parse_placeholder [of "Some esx1" "Some (HostConfigInfo [''10.0.0.5''])" "[]"],
       where s = "fresh True" and m = fm]
    TransferURL_placeholder_host
      [OF sim_Parse_esx1 [of "Some esx1" "Some (HostConfigInfo [''10.0.0.5''])" "[]"],
       where s = "fresh False" and m = fm]
  by (simp add: sim_eval)


text \<open>
  Claim C2. Connected to vCenter, when the cache has an entry for the URL's hostname
  (the hostname after the placeholder step, which is the name the guest file transfer
  reported), the call returns the URL with its host set to the cached address joined
  with the URL's port, returns no error, and leaves the whole state as it was; in
  particular no remote call is added to \<open>sent\<close>.
\<close>

theorem TransferURL_cache_hit:
  assumes "url_Parse d u = Inr parsed" and "c_IsVC (client s)"
    and "turl = (if Hostname parsed = ''*'' then parsed\<lparr>Host := Host (c_URL (client s))\<rparr>
                 else parsed)"
    and "hosts s (Hostname turl) = Some mname"
  shows "fst (TransferURL d m u s) = (Some (turl\<lparr>Host := JoinHostPort mname (Port turl)\<rparr>), None) \<and>
         snd (TransferURL d m u s) = s \<and>
         sent (snd (TransferURL d m u s)) = sent s"
  using TransferURL_hit [OF assms] by simp

theorem TransferURL_cache_hit_witness:
  "fst (TransferURL (sim (Some esx1) (Some (HostConfigInfo [''10.0.0.5''])) []) fm
          ''https://esx1.example.com:443/guestFile?id=7''
          ((fresh True)\<lparr>hosts := [''esx1.example.com'' \<mapsto> ''10.0.0.5'']\<rparr>)) =
     (Some \<lparr>Scheme = ''https'', Host = ''10.0.0.5:443'', Path = ''/guestFile'',
            RawQuery = ''id=7''\<rparr>, None) \<and>
   sent (snd (TransferURL (sim (Some esx1) (Some (HostConfigInfo [''10.0.0.5''])) []) fm
          ''https://esx1.example.com:443/guestFile?id=7''
          ((fresh True)\<lparr>hosts := [''esx1.example.com'' \<mapsto> ''10.0.0.5'']\<rparr>))) = []"
  using TransferURL_cache_hit
    [OF sim_Parse_esx1 [of "Some esx1" "Some (HostConfigInfo [''10.0.0.5''])" "[]"],
     where s = "(fresh True)\<lparr>hosts := [''esx1.example.com'' \<mapsto> ''10.0.0.5'']\<rparr>"
       and m = fm and mname = "''10.0.0.5''"
       and turl = "\<lparr>Scheme = ''https'', Host = ''esx1.example.com:443'', Path = ''/guestFile'',
                     RawQuery = ''id=7''\<rparr>"]
  by (simp add: sim_eval)

text \<open>
  Claim C3. Connected to vCenter, on a cache miss, when the VM and its runtime host are
  retrieved and the host's config is not nil, the returned URL's host is the resolved
  name joined with the URL's port, and the client is left as \<^verbatim>\<open>SetThumbprint\<close> leaves it
  for that host and the host's SSL thumbprint: the thumbprint table maps the returned
  URL's host to that thumbprint.
\<close>

theorem TransferURL_registers_thumbprint:
  assumes "url_Parse d u = Inr parsed" and "c_IsVC (client s)"
    and "turl = (if Hostname parsed = ''*'' then parsed\<lparr>Host := Host (c_URL (client s))\<rparr>
                 else parsed)"
    and "hosts s (Hostname turl) = None"
    and "RetrieveOne_VirtualMachine d (vm m) [''name'', ''runtime.host''] (remote s) = (Inr vmo, wa)"
    and "vm_Runtime_Host vmo = Some h"
    and "RetrieveOne_HostSystem d h props wa = (Inr host, wb)"
    and "host_Config host = Some config"
    and "ips = HostSystemManagementIPs d (VirtualNicManagerInfo_NetConfig config)"
    and "name' = (if length ips = 1 \<and> useGuestTransferIP d then IP_String (ips ! 0)
                  else Hostname turl)"
    and "turl' = turl\<lparr>Host := JoinHostPort name' (Port turl)\<rparr>"
  shows "fst (TransferURL d m u s) = (Some turl', None) \<and>
         Host turl' = JoinHostPort name' (Port turl) \<and>
         client (snd (TransferURL d m u s)) =
           SetThumbprint (Host turl') (host_Summary_Config_SslThumbprint host) (client s) \<and>
         c_thumbprints (client (snd (TransferURL d m u s))) (Host turl') =
           Some (host_Summary_Config_SslThumbprint host)"
  using TransferURL_resolved [OF assms(1-9) refl] assms(10,11)
  by (simp add: SetThumbprint_def)

theorem TransferURL_registers_thumbprint_witness:
  "fst (TransferURL (sim (Some esx1) (Some (HostConfigInfo [''10.0.0.5''])) []) fm
          ''https://esx1.example.com:443/guestFile?id=7'' (fresh True)) =
     (Some \<lparr>Scheme = ''https'', Host = ''10.0.0.5:443'', Path = ''/guestFile'',
            RawQuery = ''id=7''\<rparr>, None) \<and>
   c_thumbprints (client (snd (TransferURL
          (sim (Some esx1) (Some (HostConfigInfo [''10.0.0.5''])) []) fm
          ''https://esx1.example.com:443/guestFile?id=7'' (fresh True)))) ''10.0.0.5:443'' =
     Some ''AA:BB:CC''"
  using TransferURL_registers_thumbprint
    [OF sim_Parse_esx1 [of "Some esx1" "Some (HostConfigInfo [''10.0.0.5''])" "[]"],
     where s = "fresh True" and m = fm and h = esx1 and wa = 1 and wb = 2
       and config = "HostConfigInfo [''10.0.0.5'']" and ips = "[IP ''10.0.0.5'']"
       and name' = "''10.0.0.5''"
       and turl = "\<lparr>Scheme = ''https'', Host = ''esx1.example.com:443'', Path = ''/guestFile'',
                     RawQuery = ''id=7''\<rparr>"
       and turl' = "\<lparr>Scheme = ''https'', Host = ''10.0.0.5:443'', Path = ''/guestFile'',
                      RawQuery = ''id=7''\<rparr>"
       and vmo = "\<lparr>vm_Self = vm fm, vm_Name = ''vm-web'', vm_Runtime_Host = Some esx1\<rparr>"
       and host = "\<lparr>host_Self = esx1, host_Name = ''esx1.example.com'',
                     host_Runtime_ConnectionState = ''connected'',
                     host_Summary_Config_SslThumbprint = ''AA:BB:CC'',
                     host_Config = Some (HostConfigInfo [''10.0.0.5''])\<rparr>"]
  by (simp add: sim_eval sim_retrieve useGuestTransferIP_def SetThumbprint_def)

text \<open>
  Claim C8. Connected to vCenter, on a cache miss, when the retrieved VM has no runtime
  host, the call returns the URL as rewritten so far with a nil error, and the cache is
  unchanged.
\<close>

theorem TransferURL_vm_without_host:
  assumes "url_Parse d u = Inr parsed" and "c_IsVC (client s)"
    and "turl = (if Hostname parsed = ''*'' then parsed\<lparr>Host := Host (c_URL (client s))\<rparr>
                 else parsed)"
    and "hosts s (Hostname turl) = None"
    and "RetrieveOne_VirtualMachine d (vm m) [''name'', ''runtime.host''] (remote s) = (Inr vmo, wa)"
    and "vm_Runtime_Host vmo = None"
  shows "fst (TransferURL d m u s) = (Some turl, None) \<and>
         hosts (snd (TransferURL d m u s)) = hosts s"
  using TransferURL_no_host [OF assms] by simp

theorem TransferURL_vm_without_host_witness:
  "fst (TransferURL (sim None None []) fm ''https://*:443/guestFile?id=7'' (fresh True)) =
     (Some \<lparr>Scheme = ''https'', Host = ''vc.example.com:8443'', Path = ''/guestFile'',
            RawQuery = ''id=7''\<rparr>, None) \<and>
   hosts (snd (TransferURL (sim None None []) fm ''https://*:443/guestFile?id=7''
            (fresh True))) = Map.empty"
  using TransferURL_vm_without_host
    [OF sim_Parse_placeholder [of None None "[]"],
     where s = "fresh True" and m = fm and wa = 1
       and turl = "\<lparr>Scheme = ''https'', Host = ''vc.example.com:8443'', Path = ''/guestFile'',
                     RawQuery = ''id=7''\<rparr>"
       and vmo = "\<lparr>vm_Self = vm fm, vm_Name = ''vm-web'', vm_Runtime_Host = None\<rparr>"]
  by (simp add: sim_eval sim_retrieve)

text \<open>
  Claim C9. Connected to vCenter, on a cache miss with a runtime host, when the retrieved
  host's config is nil, the call returns a nil URL and the error of line 182, which
  carries the VM's name and reference and the host's name, reference and connection
  state; the cache is unchanged.
\<close>

theorem TransferURL_host_config_nil:
  assumes "url_Parse d u = Inr parsed" and "c_IsVC (client s)"
    and "turl = (if Hostname parsed = ''*'' then parsed\<lparr>Host := Host (c_URL (client s))\<rparr>
                 else parsed)"
    and "hosts s (Hostname turl) = None"
    and "RetrieveOne_VirtualMachine d (vm m) [''name'', ''runtime.host''] (remote s) = (Inr vmo, wa)"
    and "vm_Runtime_Host vmo = Some h"
    and "RetrieveOne_HostSystem d h props wa = (Inr host, wb)"
    and "host_Config host = None"
  shows "fst (TransferURL d m u s) =
           (None, Some (Errorf_host_config_nil (vm_Name vmo) (vm_Self vmo) (host_Name host)
                          (host_Self host) (host_Runtime_ConnectionState host))) \<and>
         hosts (snd (TransferURL d m u s)) = hosts s"
  using TransferURL_config_nil [OF assms] by simp

theorem TransferURL_host_config_nil_witness:
  "fst (TransferURL (sim (Some esx1) None []) fm
          ''https://esx1.example.com:443/guestFile?id=7'' (fresh True)) =
     (None, Some (Errorf_host_config_nil ''vm-web'' (MoRef ''VirtualMachine'' ''vm-42'')
                    ''esx1.example.com'' (MoRef ''HostSystem'' ''host-9'') ''connected'')) \<and>
   hosts (snd (TransferURL (sim (Some esx1) None []) fm
          ''https://esx1.example.com:443/guestFile?id=7'' (fresh True))) = Map.empty"
  using TransferURL_host_config_nil
    [OF sim_Parse_esx1 [of "Some esx1" None "[]"],
     where s = "fresh True" and m = fm and h = esx1 and wa = 1 and wb = 2
       and turl = "\<lparr>Scheme = ''https'', Host = ''esx1.example.com:443'', Path = ''/guestFile'',
                     RawQuery = ''id=7''\<rparr>"
       and vmo = "\<lparr>vm_Self = vm fm, vm_Name = ''vm-web'', vm_Runtime_Host = Some esx1\<rparr>"
       and host = "\<lparr>host_Self = esx1, host_Name = ''esx1.example.com'',
                     host_Runtime_ConnectionState = ''connected'',
                     host_Summary_Config_SslThumbprint = ''AA:BB:CC'',
                     host_Config = None\<rparr>"]
  by (simp add: sim_eval sim_retrieve fm_def esx1_def)

text \<open>
  Claim C10. Connected to vCenter, on a cache miss that reaches the choice of the
  management address (line 192): when the host reports a number of management addresses
  other than one, or the environment variable \<^verbatim>\<open>GOVMOMI_USE_GUEST_TRANSFER_IP\<close> is
  \<^verbatim>\<open>false\<close>, the hostname is kept, joined with the URL's port, the cache is left as it
  was, and the thumbprint is registered for that host. When there is exactly one
  management address and the variable is not \<^verbatim>\<open>false\<close>, that address is used in the URL,
  stored in the cache under the hostname, and the thumbprint is registered for it.
\<close>

theorem TransferURL_management_ip_choice:
  assumes "url_Parse d u = Inr parsed" and "c_IsVC (client s)"
    and "turl = (if Hostname parsed = ''*'' then parsed\<lparr>Host := Host (c_URL (client s))\<rparr>
                 else parsed)"
    and "hosts s (Hostname turl) = None"
    and "RetrieveOne_VirtualMachine d (vm m) [''name'', ''runtime.host''] (remote s) = (Inr vmo, wa)"
    and "vm_Runtime_Host vmo = Some h"
    and "RetrieveOne_HostSystem d h props wa = (Inr host, wb)"
    and "host_Config host = Some config"
    and "ips = HostSystemManagementIPs d (VirtualNicManagerInfo_NetConfig config)"
  shows "(length ips \<noteq> 1 \<or> Getenv d ''GOVMOMI_USE_GUEST_TRANSFER_IP'' = ''false'' \<longrightarrow>
            fst (TransferURL d m u s) =
              (Some (turl\<lparr>Host := JoinHostPort (Hostname turl) (Port turl)\<rparr>), None) \<and>
            hosts (snd (TransferURL d m u s)) = hosts s \<and>
            c_thumbprints (client (snd (TransferURL d m u s)))
              (JoinHostPort (Hostname turl) (Port turl)) =
              Some (host_Summary_Config_SslThumbprint host)) \<and>
         (length ips = 1 \<and> Getenv d ''GOVMOMI_USE_GUEST_TRANSFER_IP'' \<noteq> ''false'' \<longrightarrow>
            fst (TransferURL d m u s) =
              (Some (turl\<lparr>Host := JoinHostPort (IP_String (ips ! 0)) (Port turl)\<rparr>), None) \<and>
            hosts (snd (TransferURL d m u s)) =
              (hosts s)(Hostname turl \<mapsto> IP_String (ips ! 0)) \<and>
            c_thumbprints (client (snd (TransferURL d m u s)))
              (JoinHostPort (IP_String (ips ! 0)) (Port turl)) =
              Some (host_Summary_Config_SslThumbprint host))"
  using TransferURL_resolved [OF assms(1-9) refl refl]
  by (simp add: SetThumbprint_def useGuestTransferIP_def)

theorem TransferURL_management_ip_choice_witness:
  "fst (TransferURL (sim (Some esx1) (Some (HostConfigInfo [''10.0.0.5'', ''10.0.0.6''])) []) fm
          ''https://esx1.example.com:443/guestFile?id=7'' (fresh True)) =
     (Some \<lparr>Scheme = ''https'', Host = ''esx1.example.com:443'', Path = ''/guestFile'',
            RawQuery = ''id=7''\<rparr>, None) \<and>
   hosts (snd (TransferURL (sim (Some esx1) (Some (HostConfigInfo [''10.0.0.5'', ''10.0.0.6''])) []) fm
          ''https://esx1.example.com:443/guestFile?id=7'' (fresh True))) = Map.empty \<and>
   c_thumbprints (client (snd (TransferURL (sim (Some esx1) (Some (HostConfigInfo [''10.0.0.5'', ''10.0.0.6''])) []) fm
          ''https://esx1.example.com:443/guestFile?id=7'' (fresh True)))) ''esx1.example.com:443'' = Some ''AA:BB:CC'' \<and>
   fst (TransferURL (sim (Some esx1) (Some (HostConfigInfo [''10.0.0.5''])) ''false'') fm
          ''https://esx1.example.com:443/guestFile?id=7'' (fresh True)) =
     (Some \<lparr>Scheme = ''https'', Host = ''esx1.example.com:443'', Path = ''/guestFile'',
            RawQuery = ''id=7''\<rparr>, None) \<and>
   hosts (snd (TransferURL (sim (Some esx1) (Some (HostConfigInfo [''10.0.0.5''])) ''false'') fm
          ''https://esx1.example.com:443/guestFile?id=7'' (fresh True))) = Map.empty \<and>
   c_thumbprints (client (snd (TransferURL (sim (Some esx1) (Some (HostConfigInfo [''10.0.0.5''])) ''false'') fm
          ''https://esx1.example.com:443/guestFile?id=7'' (fresh True)))) ''esx1.example.com:443'' = Some ''AA:BB:CC'' \<and>
   fst (TransferURL (sim (Some esx1) (Some (HostConfigInfo [''10.0.0.5''])) []) fm
          ''https://esx1.example.com:443/guestFile?id=7'' (fresh True)) =
     (Some \<lparr>Scheme = ''https'', Host = ''10.0.0.5:443'', Path = ''/guestFile'',
            RawQuery = ''id=7''\<rparr>, None) \<and>
   hosts (snd (TransferURL (sim (Some esx1) (Some (HostConfigInfo [''10.0.0.5''])) []) fm
          ''https://esx1.example.com:443/guestFile?id=7'' (fresh True))) = [''esx1.example.com'' \<mapsto> ''10.0.0.5''] \<and>
   c_thumbprints (client (snd (TransferURL (sim (Some esx1) (Some (HostConfigInfo [''10.0.0.5''])) []) fm
          ''https://esx1.example.com:443/guestFile?id=7'' (fresh True)))) ''10.0.0.5:443'' = Some ''AA:BB:CC''"
  using
    TransferURL_management_ip_choice
      [OF sim_Parse_esx1 [of "Some esx1" "Some (HostConfigInfo [''10.0.0.5'', ''10.0.0.6''])" "[]"],
     where s = "fresh True" and m = fm and h = esx1 and wa = 1 and wb = 2
       and ips = "[IP ''10.0.0.5'', IP ''10.0.0.6'']"
       and config = "HostConfigInfo [''10.0.0.5'', ''10.0.0.6'']"
       and turl = "\<lparr>Scheme = ''https'', Host = ''esx1.example.com:443'', Path = ''/guestFile'',
                     RawQuery = ''id=7''\<rparr>"
       and vmo = "\<lparr>vm_Self = vm fm, vm_Name = ''vm-web'', vm_Runtime_Host = Some esx1\<rparr>"
       and host = "\<lparr>host_Self = esx1, host_Name = ''esx1.example.com'',
                     host_Runtime_ConnectionState = ''connected'',
                     host_Summary_Config_SslThumbprint = ''AA:BB:CC'',
                     host_Config = Some (HostConfigInfo [''10.0.0.5'', ''10.0.0.6''])\<rparr>"]
    TransferURL_management_ip_choice
      [OF sim_Parse_esx1 [of "Some esx1" "Some (HostConfigInfo [''10.0.0.5''])" "''false''"],
     where s = "fresh True" and m = fm and h = esx1 and wa = 1 and wb = 2
       and ips = "[IP ''10.0.0.5'']"
       and config = "HostConfigInfo [''10.0.0.5'']"
       and turl = "\<lparr>Scheme = ''https'', Host = ''esx1.example.com:443'', Path = ''/guestFile'',
                     RawQuery = ''id=7''\<rparr>"
       and vmo = "\<lparr>vm_Self = vm fm, vm_Name = ''vm-web'', vm_Runtime_Host = Some esx1\<rparr>"
       and host = "\<lparr>host_Self = esx1, host_Name = ''esx1.example.com'',
                     host_Runtime_ConnectionState = ''connected'',
                     host_Summary_Config_SslThumbprint = ''AA:BB:CC'',
                     host_Config = Some (HostConfigInfo [''10.0.0.5''])\<rparr>"]
    TransferURL_management_ip_choice
      [OF sim_Parse_esx1 [of "Some esx1" "Some (HostConfigInfo [''10.0.0.5''])" "[]"],
     where s = "fresh True" and m = fm and h = esx1 and wa = 1 and wb = 2
       and ips = "[IP ''10.0.0.5'']"
       and config = "HostConfigInfo [''10.0.0.5'']"
       and turl = "\<lparr>Scheme = ''https'', Host = ''esx1.example.com:443'', Path = ''/guestFile'',
                     RawQuery = ''id=7''\<rparr>"
       and vmo = "\<lparr>vm_Self = vm fm, vm_Name = ''vm-web'', vm_Runtime_Host = Some esx1\<rparr>"
       and host = "\<lparr>host_Self = esx1, host_Name = ''esx1.example.com'',
                     host_Runtime_ConnectionState = ''connected'',
                     host_Summary_Config_SslThumbprint = ''AA:BB:CC'',
                     host_Config = Some (HostConfigInfo [''10.0.0.5''])\<rparr>"]
  by (simp add: sim_eval sim_retrieve)

text \<open>
  Claim C4 says that a call of \<^verbatim>\<open>TransferURL\<close> leaves all state other than the cache
  unchanged. It does not: line 204 registers the host's thumbprint with the client. On
  a fresh proxy connected to vCenter, resolving \<^verbatim>\<open>esx1.example.com:443\<close> leaves the client
  with a thumbprint for \<^verbatim>\<open>10.0.0.5:443\<close> that it did not have before.
\<close>

theorem TransferURL_changes_client_counterexample:
  "c_thumbprints (client (fresh True)) ''10.0.0.5:443'' = None \<and>
   c_thumbprints
     (client (snd (TransferURL (sim (Some esx1) (Some (HostConfigInfo [''10.0.0.5''])) []) fm
           ''https://esx1.example.com:443/guestFile?id=7'' (fresh True))))
     ''10.0.0.5:443'' = Some ''AA:BB:CC'' \<and>
   client (snd (TransferURL (sim (Some esx1) (Some (HostConfigInfo [''10.0.0.5''])) []) fm
           ''https://esx1.example.com:443/guestFile?id=7'' (fresh True))) \<noteq>
     client (fresh True)"
proof (intro conjI notI)
  show none: "c_thumbprints (client (fresh True)) ''10.0.0.5:443'' = None"
    by (simp add: fresh_def)
  show "c_thumbprints
     (client (snd (TransferURL (sim (Some esx1) (Some (HostConfigInfo [''10.0.0.5''])) []) fm
           ''https://esx1.example.com:443/guestFile?id=7'' (fresh True))))
     ''10.0.0.5:443'' = Some ''AA:BB:CC''"
    by (rule sim_resolved_thumbprint)
  assume "client (snd (TransferURL (sim (Some esx1) (Some (HostConfigInfo [''10.0.0.5''])) []) fm
           ''https://esx1.example.com:443/guestFile?id=7'' (fresh True))) =
     client (fresh True)"
  with sim_resolved_thumbprint none show False by simp
qed

text \<open>
  Claim C4, amended. Besides the cache, a call of \<^verbatim>\<open>TransferURL\<close> changes the client's
  thumbprint table and nothing else of the local state. The client's endpoint URL and
  its vCenter flag are unchanged by every call. Either the cache and the client are
  both unchanged; or the call returns a URL and a nil error, the client is as one call
  of \<^verbatim>\<open>SetThumbprint\<close> for the returned URL's host leaves it, and the cache is unchanged or
  has one new entry under a hostname that had none.
\<close>

theorem TransferURL_frame:
  "c_URL (client (snd (TransferURL d m u s))) = c_URL (client s) \<and>
   c_IsVC (client (snd (TransferURL d m u s))) = c_IsVC (client s) \<and>
   ((hosts (snd (TransferURL d m u s)) = hosts s \<and>
     client (snd (TransferURL d m u s)) = client s) \<or>
    (\<exists>turl' tp.
       fst (TransferURL d m u s) = (Some turl', None) \<and>
       client (snd (TransferURL d m u s)) = SetThumbprint (Host turl') tp (client s) \<and>
       (hosts (snd (TransferURL d m u s)) = hosts s \<or>
        (\<exists>name mname. hosts s name = None \<and>
           hosts (snd (TransferURL d m u s)) = (hosts s)(name \<mapsto> mname)))))"
proof -
  note local = TransferURL_local [of d m u s]
  from local have "c_URL (client (snd (TransferURL d m u s))) = c_URL (client s)"
    by (auto simp add: SetThumbprint_def)
  moreover from local have "c_IsVC (client (snd (TransferURL d m u s))) = c_IsVC (client s)"
    by (auto simp add: SetThumbprint_def)
  ultimately show ?thesis using local by simp
qed

section \<open>The claim about the cache over time\<close>

text \<open>
  Claim C5. The cache is never invalidated: an entry that is in the cache is still
  there, with the same address, after any sequence of operations on the same proxy.
  Operations run one after the other here; calls that overlap in time are outside
  this development.
\<close>

theorem cache_never_invalidated:
  assumes "hosts s k = Some v"
  shows "hosts (run d m xs s) k = Some v"
  using assms by (rule run_hosts_kept)

theorem cache_never_invalidated_witness:
  "hosts ((fresh True)\<lparr>hosts := [''esx1.example.com'' \<mapsto> ''10.0.0.5'']\<rparr>) ''esx1.example.com'' =
     Some ''10.0.0.5'' \<and>
   hosts (run (sim (Some esx1) (Some (HostConfigInfo [''10.0.0.9''])) []) fm
            [Call_DeleteFile ''root'' ''/tmp/f1'',
             Call_TransferURL ''https://vc.example.com:8443/guestFile?id=7'',
             Call_TransferURL ''https://esx1.example.com:443/guestFile?id=7'']
            ((fresh True)\<lparr>hosts := [''esx1.example.com'' \<mapsto> ''10.0.0.5'']\<rparr>))
     ''esx1.example.com'' = Some ''10.0.0.5'' \<and>
   hosts (run (sim (Some esx1) (Some (HostConfigInfo [''10.0.0.9''])) []) fm
            [Call_DeleteFile ''root'' ''/tmp/f1'',
             Call_TransferURL ''https://vc.example.com:8443/guestFile?id=7'',
             Call_TransferURL ''https://esx1.example.com:443/guestFile?id=7'']
            ((fresh True)\<lparr>hosts := [''esx1.example.com'' \<mapsto> ''10.0.0.5'']\<rparr>))
     ''vc.example.com'' = Some ''10.0.0.9''"
  using sim_run_adds_entry cache_never_invalidated
    [where s = "(fresh True)\<lparr>hosts := [''esx1.example.com'' \<mapsto> ''10.0.0.5'']\<rparr>"
       and k = "''esx1.example.com''" and v = "''10.0.0.5''"
       and d = "sim (Some esx1) (Some (HostConfigInfo [''10.0.0.9''])) []" and m = fm
       and xs = "[Call_DeleteFile ''root'' ''/tmp/f1'',
                  Call_TransferURL ''https://vc.example.com:8443/guestFile?id=7'',
                  Call_TransferURL ''https://esx1.example.com:443/guestFile?id=7'']"]
  by (simp add: fresh_def)

section \<open>The claims about the forwarding operations\<close>

text \<open>
  Claim C6. Each of the eleven file and directory operations makes exactly one remote
  call (the list of calls grows by one) and leaves the cache and the client as they
  were, whatever the call returns.
\<close>

theorem file_operations_frame:
  "(let s' = snd (ChangeFileAttributes d m auth guestFilePath fileAttributes s)
    in hosts s' = hosts s \<and> client s' = client s \<and>
       length (sent s') = Suc (length (sent s))) \<and>
   (let s' = snd (CreateTemporaryDirectory d m auth prefix suffix path s)
    in hosts s' = hosts s \<and> client s' = client s \<and>
       length (sent s') = Suc (length (sent s))) \<and>
   (let s' = snd (CreateTemporaryFile d m auth prefix suffix path s)
    in hosts s' = hosts s \<and> client s' = client s \<and>
       length (sent s') = Suc (length (sent s))) \<and>
   (let s' = snd (DeleteDirectory d m auth directoryPath recursive s)
    in hosts s' = hosts s \<and> client s' = client s \<and>
       length (sent s') = Suc (length (sent s))) \<and>
   (let s' = snd (DeleteFile d m auth filePath s)
    in hosts s' = hosts s \<and> client s' = client s \<and>
       length (sent s') = Suc (length (sent s))) \<and>
   (let s' = snd (InitiateFileTransferFromGuest d m auth guestFilePath s)
    in hosts s' = hosts s \<and> client s' = client s \<and>
       length (sent s') = Suc (length (sent s))) \<and>
   (let s' = snd (InitiateFileTransferToGuest d m auth guestFilePath fileAttributes fileSize overwrite s)
    in hosts s' = hosts s \<and> client s' = client s \<and>
       length (sent s') = Suc (length (sent s))) \<and>
   (let s' = snd (ListFiles d m auth filePath index maxResults matchPattern s)
    in hosts s' = hosts s \<and> client s' = client s \<and>
       length (sent s') = Suc (length (sent s))) \<and>
   (let s' = snd (MakeDirectory d m auth directoryPath createParentDirectories s)
    in hosts s' = hosts s \<and> client s' = client s \<and>
       length (sent s') = Suc (length (sent s))) \<and>
   (let s' = snd (MoveDirectory d m auth srcDirectoryPath dstDirectoryPath s)
    in hosts s' = hosts s \<and> client s' = client s \<and>
       length (sent s') = Suc (length (sent s))) \<and>
   (let s' = snd (MoveFile d m auth srcFilePath dstFilePath overwrite s)
    in hosts s' = hosts s \<and> client s' = client s \<and>
       length (sent s') = Suc (length (sent s)))"
  by (simp add: forwarding_eq Let_def)

theorem file_operations_frame_witness:
  "hosts (snd (DeleteFile (sim (Some esx1) None []) fm ''root'' ''/tmp/f1'' (fresh True))) =
     hosts (fresh True) \<and>
   client (snd (DeleteFile (sim (Some esx1) None []) fm ''root'' ''/tmp/f1'' (fresh True))) =
     client (fresh True) \<and>
   length (sent (snd (DeleteFile (sim (Some esx1) None []) fm ''root'' ''/tmp/f1''
                        (fresh True)))) = 1"
  using file_operations_frame
    [where d = "sim (Some esx1) None []" and m = fm and s = "fresh True"
       and auth = "''root''" and filePath = "''/tmp/f1''"]
  by (simp add: Let_def fresh_def)

text \<open>
  Claim C7. Each forwarding operation sends one request built from the proxy's own
  reference, the VM's reference and the operation's arguments. An operation with a
  result returns the response's \<^verbatim>\<open>Returnval\<close> and a nil error when the call succeeds, and
  the zero value of its result type (the empty string, or a nil pointer) with the
  call's error when it fails. An operation without a result returns the call's error,
  or nil.
\<close>

theorem forwarding_request_and_result:
  "(let req = types_ChangeFileAttributesInGuest (Self m) (vm m) auth guestFilePath fileAttributes;
        r = methods_ChangeFileAttributesInGuest d req (remote s)
    in fst (ChangeFileAttributes d m auth guestFilePath fileAttributes s) =
         (case fst r of Inl err \<Rightarrow> Some err | Inr _ \<Rightarrow> None) \<and>
       sent (snd (ChangeFileAttributes d m auth guestFilePath fileAttributes s)) = sent s @ [Invoke req]) \<and>
   (let req = types_CreateTemporaryDirectoryInGuest (Self m) (vm m) auth prefix suffix path;
        r = methods_CreateTemporaryDirectoryInGuest d req (remote s)
    in fst (CreateTemporaryDirectory d m auth prefix suffix path s) =
         (case fst r of Inl err \<Rightarrow> ([], Some err) | Inr res \<Rightarrow> (Returnval res, None)) \<and>
       sent (snd (CreateTemporaryDirectory d m auth prefix suffix path s)) = sent s @ [Invoke req]) \<and>
   (let req = types_CreateTemporaryFileInGuest (Self m) (vm m) auth prefix suffix path;
        r = methods_CreateTemporaryFileInGuest d req (remote s)
    in fst (CreateTemporaryFile d m auth prefix suffix path s) =
         (case fst r of Inl err \<Rightarrow> ([], Some err) | Inr res \<Rightarrow> (Returnval res, None)) \<and>
       sent (snd (CreateTemporaryFile d m auth prefix suffix path s)) = sent s @ [Invoke req]) \<and>
   (let req = types_DeleteDirectoryInGuest (Self m) (vm m) auth directoryPath recursive;
        r = methods_DeleteDirectoryInGuest d req (remote s)
    in fst (DeleteDirectory d m auth directoryPath recursive s) =
         (case fst r of Inl err \<Rightarrow> Some err | Inr _ \<Rightarrow> None) \<and>
       sent (snd (DeleteDirectory d m auth directoryPath recursive s)) = sent s @ [Invoke req]) \<and>
   (let req = types_DeleteFileInGuest (Self m) (vm m) auth filePath;
        r = methods_DeleteFileInGuest d req (remote s)
    in fst (DeleteFile d m auth filePath s) =
         (case fst r of Inl err \<Rightarrow> Some err | Inr _ \<Rightarrow> None) \<and>
       sent (snd (DeleteFile d m auth filePath s)) = sent s @ [Invoke req]) \<and>
   (let req = types_InitiateFileTransferFromGuest (Self m) (vm m) auth guestFilePath;
        r = methods_InitiateFileTransferFromGuest d req (remote s)
    in fst (InitiateFileTransferFromGuest d m auth guestFilePath s) =
         (case fst r of Inl err \<Rightarrow> (None, Some err) | Inr res \<Rightarrow> (Some (Returnval res), None)) \<and>
       sent (snd (InitiateFileTransferFromGuest d m auth guestFilePath s)) = sent s @ [Invoke req]) \<and>
   (let req = types_InitiateFileTransferToGuest (Self m) (vm m) auth guestFilePath fileAttributes fileSize overwrite;
        r = methods_InitiateFileTransferToGuest d req (remote s)
    in fst (InitiateFileTransferToGuest d m auth guestFilePath fileAttributes fileSize overwrite s) =
         (case fst r of Inl err \<Rightarrow> ([], Some err) | Inr res \<Rightarrow> (Returnval res, None)) \<and>
       sent (snd (InitiateFileTransferToGuest d m auth guestFilePath fileAttributes fileSize overwrite s)) = sent s @ [Invoke req]) \<and>
   (let req = types_ListFilesInGuest (Self m) (vm m) auth filePath index maxResults matchPattern;
        r = methods_ListFilesInGuest d req (remote s)
    in fst (ListFiles d m auth filePath index maxResults matchPattern s) =
         (case fst r of Inl err \<Rightarrow> (None, Some err) | Inr res \<Rightarrow> (Some (Returnval res), None)) \<and>
       sent (snd (ListFiles d m auth filePath index maxResults matchPattern s)) = sent s @ [Invoke req]) \<and>
   (let req = types_MakeDirectoryInGuest (Self m) (vm m) auth directoryPath createParentDirectories;
        r = methods_MakeDirectoryInGuest d req (remote s)
    in fst (MakeDirectory d m auth directoryPath createParentDirectories s) =
         (case fst r of Inl err \<Rightarrow> Some err | Inr _ \<Rightarrow> None) \<and>
       sent (snd (MakeDirectory d m auth directoryPath createParentDirectories s)) = sent s @ [Invoke req]) \<and>
   (let req = types_MoveDirectoryInGuest (Self m) (vm m) auth srcDirectoryPath dstDirectoryPath;
        r = methods_MoveDirectoryInGuest d req (remote s)
    in fst (MoveDirectory d m auth srcDirectoryPath dstDirectoryPath s) =
         (case fst r of Inl err \<Rightarrow> Some err | Inr _ \<Rightarrow> None) \<and>
       sent (snd (MoveDirectory d m auth srcDirectoryPath dstDirectoryPath s)) = sent s @ [Invoke req]) \<and>
   (let req = types_MoveFileInGuest (Self m) (vm m) auth srcFilePath dstFilePath overwrite;
        r = methods_MoveFileInGuest d req (remote s)
    in fst (MoveFile d m auth srcFilePath dstFilePath overwrite s) =
         (case fst r of Inl err \<Rightarrow> Some err | Inr _ \<Rightarrow> None) \<and>
       sent (snd (MoveFile d m auth srcFilePath dstFilePath overwrite s)) = sent s @ [Invoke req])"
  by (simp add: forwarding_eq Let_def)

theorem forwarding_request_and_result_witness:
  "fst (CreateTemporaryFile (sim (Some esx1) None []) fm ''root'' ''up'' ''.bin'' ''/tmp''
          (fresh True)) = (''/tmp/f1'', None) \<and>
   sent (snd (CreateTemporaryFile (sim (Some esx1) None []) fm ''root'' ''up'' ''.bin'' ''/tmp''
                (fresh True))) =
     [Invoke (types_CreateTemporaryFileInGuest
                (MoRef ''GuestFileManager'' ''guestOperationsFileManager'')
                (MoRef ''VirtualMachine'' ''vm-42'') ''root'' ''up'' ''.bin'' ''/tmp'')] \<and>
   fst (DeleteFile (sim (Some esx1) None []) fm ''root'' ''/tmp/f1'' (fresh True)) =
     Some (soap_Fault ''FileNotFound'') \<and>
   fst (ListFiles (sim (Some esx1) None []) fm ''root'' ''/tmp'' 0 10 ''*.txt'' (fresh True)) =
     (Some [''a.txt'', ''b.txt''], None)"
  using forwarding_request_and_result
    [where d = "sim (Some esx1) None []" and m = fm and s = "fresh True"
       and auth = "''root''" and filePath = "''/tmp/f1''"
       and prefix = "''up''" and suffix = "''.bin''" and path = "''/tmp''"]
    forwarding_request_and_result
    [where d = "sim (Some esx1) None []" and m = fm and s = "fresh True"
       and auth = "''root''" and filePath = "''/tmp''" and index = 0 and maxResults = 10
       and matchPattern = "''*.txt''"]
  by (simp add: Let_def fresh_def fm_def sim_def)

end
